theory Spec2Isabelle
  imports Complex_Main
begin

section \<open>JavaScript numbers\<close>

text \<open>
  The scene code computes with JavaScript numbers. A finite number is modelled by the
  real it stands for (rounding and overflow are left out), and the three special values
  that a division by zero brings into the computation are kept: \<open>Infinity\<close>,
  \<open>-Infinity\<close> and \<open>NaN\<close>. Zero stands for \<open>+0\<close>: the divisors of this code are
  pixel sizes, box extents and zoom levels, none of which is \<open>-0\<close>.
\<close>

datatype jsnum = Fin real | PosInf | NegInf | NaN

fun isFinite :: "jsnum \<Rightarrow> bool" where
  "isFinite (Fin a) = True"
| "isFinite PosInf = False"
| "isFinite NegInf = False"
| "isFinite NaN = False"

text \<open>The infinity that carries the sign of a real; \<open>Infinity * 0\<close> is \<open>NaN\<close>.\<close>

definition signed_inf :: "real \<Rightarrow> jsnum" where
  "signed_inf s = (if 0 < s then PosInf else if s < 0 then NegInf else NaN)"

instantiation jsnum :: "{uminus, plus, minus, times, inverse}"
begin

fun uminus_jsnum :: "jsnum \<Rightarrow> jsnum" where
  "uminus_jsnum (Fin a) = Fin (- a)"
| "uminus_jsnum PosInf = NegInf"
| "uminus_jsnum NegInf = PosInf"
| "uminus_jsnum NaN = NaN"

fun plus_jsnum :: "jsnum \<Rightarrow> jsnum \<Rightarrow> jsnum" where
  "plus_jsnum (Fin a) (Fin b) = Fin (a + b)"
| "plus_jsnum (Fin a) PosInf = PosInf"
| "plus_jsnum (Fin a) NegInf = NegInf"
| "plus_jsnum PosInf (Fin b) = PosInf"
| "plus_jsnum PosInf PosInf = PosInf"
| "plus_jsnum PosInf NegInf = NaN"
| "plus_jsnum NegInf (Fin b) = NegInf"
| "plus_jsnum NegInf PosInf = NaN"
| "plus_jsnum NegInf NegInf = NegInf"
| "plus_jsnum NaN b = NaN"
| "plus_jsnum a NaN = NaN"

definition minus_jsnum :: "jsnum \<Rightarrow> jsnum \<Rightarrow> jsnum" where
  "minus_jsnum a b = a + (- b)"

fun times_jsnum :: "jsnum \<Rightarrow> jsnum \<Rightarrow> jsnum" where
  "times_jsnum (Fin a) (Fin b) = Fin (a * b)"
| "times_jsnum (Fin a) PosInf = signed_inf a"
| "times_jsnum (Fin a) NegInf = signed_inf (- a)"
| "times_jsnum PosInf (Fin b) = signed_inf b"
| "times_jsnum PosInf PosInf = PosInf"
| "times_jsnum PosInf NegInf = NegInf"
| "times_jsnum NegInf (Fin b) = signed_inf (- b)"
| "times_jsnum NegInf PosInf = NegInf"
| "times_jsnum NegInf NegInf = PosInf"
| "times_jsnum NaN b = NaN"
| "times_jsnum a NaN = NaN"

fun divide_jsnum :: "jsnum \<Rightarrow> jsnum \<Rightarrow> jsnum" where
  "divide_jsnum (Fin a) (Fin b) = (if b = 0 then signed_inf a else Fin (a / b))"
| "divide_jsnum (Fin a) PosInf = Fin 0"
| "divide_jsnum (Fin a) NegInf = Fin 0"
| "divide_jsnum PosInf (Fin b) = (if b < 0 then NegInf else PosInf)"
| "divide_jsnum NegInf (Fin b) = (if b < 0 then PosInf else NegInf)"
| "divide_jsnum PosInf PosInf = NaN"
| "divide_jsnum PosInf NegInf = NaN"
| "divide_jsnum NegInf PosInf = NaN"
| "divide_jsnum NegInf NegInf = NaN"
| "divide_jsnum NaN b = NaN"
| "divide_jsnum a NaN = NaN"

definition inverse_jsnum :: "jsnum \<Rightarrow> jsnum" where
  "inverse_jsnum a = divide (Fin 1) a"

instance ..

end

text \<open>\<open>Math.tan\<close> and \<open>Math.max\<close> of three arguments (\<open>NaN\<close> as soon as one of them is).\<close>

fun Math_tan :: "jsnum \<Rightarrow> jsnum" where
  "Math_tan (Fin a) = Fin (tan a)"
| "Math_tan PosInf = NaN"
| "Math_tan NegInf = NaN"
| "Math_tan NaN = NaN"

fun max2 :: "jsnum \<Rightarrow> jsnum \<Rightarrow> jsnum" where
  "max2 (Fin a) (Fin b) = Fin (max a b)"
| "max2 NaN b = NaN"
| "max2 a NaN = NaN"
| "max2 PosInf b = PosInf"
| "max2 a PosInf = PosInf"
| "max2 NegInf b = b"
| "max2 a NegInf = a"

definition Math_max :: "jsnum \<Rightarrow> jsnum \<Rightarrow> jsnum \<Rightarrow> jsnum" where
  "Math_max a b c = max2 (max2 a b) c"

section \<open>Vectors of the 3D library\<close>

record Vector3 =
  x :: jsnum
  y :: jsnum
  z :: jsnum

text \<open>
  Modelled from the spec: \<open>Vector3.lerp\<close> and \<open>MathUtils.lerp\<close> belong to the 3D library,
  which is not part of the sources. A smoothing step covers the fraction \<open>alpha\<close> of the
  remaining distance to the target: \<open>Vector3.lerp(v, alpha)\<close> does so on each component,
  \<open>this.x += (v.x - this.x) * alpha\<close>, and \<open>MathUtils.lerp(x, y, t)\<close> is
  \<open>(1 - t) * x + t * y\<close>.
\<close>

definition Vector3_lerp :: "Vector3 \<Rightarrow> Vector3 \<Rightarrow> jsnum \<Rightarrow> Vector3" where
  "Vector3_lerp this v alpha =
     \<lparr> x = x this + (x v - x this) * alpha,
       y = y this + (y v - y this) * alpha,
       z = z this + (z v - z this) * alpha \<rparr>"

definition MathUtils_lerp :: "jsnum \<Rightarrow> jsnum \<Rightarrow> jsnum \<Rightarrow> jsnum" where
  "MathUtils_lerp a b t = (Fin 1 - t) * a + t * b"

section \<open>Configuration of the canvas component\<close>

record model_config =
  yOffset :: real
  scaleMultiplier :: real
  targetSize :: real
  desktopPivotOffsetX :: real

definition MODEL_CONFIG :: model_config where
  "MODEL_CONFIG = \<lparr> yOffset = 0, scaleMultiplier = 1.0, targetSize = 3,
                    desktopPivotOffsetX = 0.5 \<rparr>"

record camera_config =
  fov :: real
  near :: real
  far :: real
  defaultPosition :: "real \<times> real \<times> real"
  defaultZoom :: real

definition CAMERA_CONFIG :: camera_config where
  "CAMERA_CONFIG = \<lparr> fov = 45, near = 0.1, far = 100, defaultPosition = (2, 1.6, 5),
                     defaultZoom = 1.15 \<rparr>"

section \<open>The camera controller\<close>

text \<open>
  The canvas reports its size in pixels. The controller holds the latest value of each
  motion value it listens to (\<open>currentZoom\<close>, \<open>currentCameraY\<close>, \<open>currentCameraX\<close>), the
  pixel offset it was given, a target vector of its own and the position of the camera.
\<close>

record canvas_size =
  width :: real
  height :: real

record camera_inputs =
  currentZoom :: real
  currentCameraY :: real
  currentCameraX :: real
  offsetXPx :: real

record camera_state =
  targetPosition :: Vector3
  position :: Vector3

text \<open>The target that one frame writes into \<open>targetPosition.current\<close>.\<close>

definition frame_target :: "camera_config \<Rightarrow> canvas_size \<Rightarrow> camera_inputs \<Rightarrow> Vector3" where
  "frame_target cfg sz inp =
     (let fovRad = (Fin (fov cfg) * Fin pi) / Fin 180;
          baseZ = Fin (snd (snd (defaultPosition cfg)));
          distance = baseZ / Fin (currentZoom inp);
          viewportHeightAtDist = Fin 2 * Math_tan (fovRad / Fin 2) * distance;
          aspect = Fin (width sz) / Fin (height sz);
          viewportWidthAtDist = viewportHeightAtDist * aspect;
          worldOffsetX = (Fin (offsetXPx inp) / Fin (width sz)) * viewportWidthAtDist
      in \<lparr> x = Fin (currentCameraX inp) + worldOffsetX,
           y = Fin (currentCameraY inp),
           z = distance \<rparr>)"

text \<open>The callback that the controller registers with \<open>useFrame\<close>.\<close>

definition useFrame_camera ::
  "camera_config \<Rightarrow> canvas_size \<Rightarrow> camera_inputs \<Rightarrow> camera_state \<Rightarrow> camera_state" where
  "useFrame_camera cfg sz inp st =
     (let target = frame_target cfg sz inp
      in \<lparr> targetPosition = target,
           position = Vector3_lerp (position st) target (Fin 0.05) \<rparr>)"

text \<open>
  The props of the canvas component and of the controller. A prop that the caller left out
  is \<open>None\<close>; a motion value is represented by the number it holds.
\<close>

record ThreeSuitCanvasProps =
  prop_rotationY :: real
  prop_zoom :: real
  prop_cameraY :: "real option"
  prop_cameraX :: "real option"
  prop_offsetXPx :: "real option"

record CameraControllerProps =
  cc_zoom :: real
  cc_cameraY :: real
  cc_cameraX :: "real option"
  cc_offsetXPx :: "real option"

text \<open>
  \<open>ThreeSuitCanvas\<close> fills in \<open>offsetXPx = -400\<close> and the default vertical position, and
  hands the props through \<open>SceneContent\<close> to the controller.
\<close>

definition ThreeSuitCanvas :: "camera_config \<Rightarrow> ThreeSuitCanvasProps \<Rightarrow> CameraControllerProps" where
  "ThreeSuitCanvas cfg props =
     (let offsetXPx = (case prop_offsetXPx props of None \<Rightarrow> - 400 | Some v \<Rightarrow> v);
          defaultCameraY = fst (snd (defaultPosition cfg));
          effectiveCameraY = (case prop_cameraY props of None \<Rightarrow> defaultCameraY | Some v \<Rightarrow> v)
      in \<lparr> cc_zoom = prop_zoom props, cc_cameraY = effectiveCameraY,
           cc_cameraX = prop_cameraX props, cc_offsetXPx = Some offsetXPx \<rparr>)"

text \<open>
  \<open>CameraController\<close> has \<open>offsetXPx = 0\<close> as its own default and falls back on the
  default horizontal position when no \<open>cameraX\<close> is given.
\<close>

definition CameraController :: "camera_config \<Rightarrow> CameraControllerProps \<Rightarrow> camera_inputs" where
  "CameraController cfg props =
     (let offsetXPx = (case cc_offsetXPx props of None \<Rightarrow> 0 | Some v \<Rightarrow> v);
          defaultCameraX = fst (defaultPosition cfg);
          effectiveCameraX = (case cc_cameraX props of None \<Rightarrow> defaultCameraX | Some v \<Rightarrow> v)
      in \<lparr> currentZoom = cc_zoom props, currentCameraY = cc_cameraY props,
           currentCameraX = effectiveCameraX, offsetXPx = offsetXPx \<rparr>)"

section \<open>The suit model: scaling, centring and rotation\<close>

record Box3 =
  box_min :: Vector3
  box_max :: Vector3

text \<open>
  Modelled from the spec: \<open>Box3.getSize\<close> and \<open>Box3.getCenter\<close> belong to the 3D library,
  which is not part of the sources; the bounding volume has \<open>size = max - min\<close> and
  \<open>center = (max + min) / 2\<close>.
\<close>

definition getSize :: "Box3 \<Rightarrow> Vector3" where
  "getSize box = \<lparr> x = x (box_max box) - x (box_min box),
                    y = y (box_max box) - y (box_min box),
                    z = z (box_max box) - z (box_min box) \<rparr>"

definition getCenter :: "Box3 \<Rightarrow> Vector3" where
  "getCenter box = \<lparr> x = (x (box_max box) + x (box_min box)) / Fin 2,
                      y = (y (box_max box) + y (box_min box)) / Fin 2,
                      z = (z (box_max box) + z (box_min box)) / Fin 2 \<rparr>"

record scene_transform =
  scale :: jsnum
  scene_position :: Vector3

definition isDesktop :: "canvas_size \<Rightarrow> bool" where
  "isDesktop viewport = (768 \<le> width viewport)"

definition maxDimension :: "Box3 \<Rightarrow> jsnum" where
  "maxDimension box = (let sz = getSize box in Math_max (x sz) (y sz) (z sz))"

text \<open>The scale and the position that the memoised scene of \<open>SuitModel\<close> is given.\<close>

definition processedScene :: "model_config \<Rightarrow> bool \<Rightarrow> Box3 \<Rightarrow> scene_transform" where
  "processedScene cfg desktop box =
     (let center = getCenter box;
          s = (Fin (targetSize cfg) / maxDimension box) * Fin (scaleMultiplier cfg);
          pivotOffsetX = (if desktop then Fin (desktopPivotOffsetX cfg) else Fin 0)
      in \<lparr> scale = s,
           scene_position = \<lparr> x = - x center * s + pivotOffsetX,
                              y = - y center * s + Fin (yOffset cfg),
                              z = - z center * s \<rparr> \<rparr>)"

datatype error = DegenerateGeometry | DegenerateViewport | EmptyKeyframeTable

text \<open>
  Seen as a step that may fail: the source has no guard and no \<open>throw\<close> on the way to the
  transform, so every bounding volume takes the successful branch.
\<close>

definition normalize :: "model_config \<Rightarrow> bool \<Rightarrow> Box3 \<Rightarrow> error + scene_transform" where
  "normalize cfg desktop box = Inr (processedScene cfg desktop box)"

text \<open>
  The frame callback of \<open>SuitModel\<close>: when the group is mounted, its rotation about the
  vertical axis moves a tenth of the way to the current target.
\<close>

definition useFrame_suit :: "jsnum \<Rightarrow> jsnum option \<Rightarrow> jsnum option" where
  "useFrame_suit currentRotation groupRef =
     (case groupRef of None \<Rightarrow> None
      | Some rotation_y \<Rightarrow> Some (MathUtils_lerp rotation_y currentRotation (Fin 0.1)))"

text \<open>
  Applying a transform to a point (uniform scale, then translation), the eight corners of
  a box, and the box spanned by a list of points, as \<open>Box3.setFromPoints\<close> builds it from
  the empty box by taking minima and maxima.
\<close>

fun min2 :: "jsnum \<Rightarrow> jsnum \<Rightarrow> jsnum" where
  "min2 (Fin a) (Fin b) = Fin (min a b)"
| "min2 NaN b = NaN"
| "min2 a NaN = NaN"
| "min2 NegInf b = NegInf"
| "min2 a NegInf = NegInf"
| "min2 PosInf b = b"
| "min2 a PosInf = a"

definition applyTransform :: "scene_transform \<Rightarrow> Vector3 \<Rightarrow> Vector3" where
  "applyTransform t p = \<lparr> x = x p * scale t + x (scene_position t),
                           y = y p * scale t + y (scene_position t),
                           z = z p * scale t + z (scene_position t) \<rparr>"

definition corners :: "Box3 \<Rightarrow> Vector3 list" where
  "corners box =
     [ \<lparr> x = cx, y = cy, z = cz \<rparr> .
         cx \<leftarrow> [x (box_min box), x (box_max box)],
         cy \<leftarrow> [y (box_min box), y (box_max box)],
         cz \<leftarrow> [z (box_min box), z (box_max box)] ]"

definition expandByPoint :: "Vector3 \<Rightarrow> Box3 \<Rightarrow> Box3" where
  "expandByPoint p box =
     \<lparr> box_min = \<lparr> x = min2 (x (box_min box)) (x p), y = min2 (y (box_min box)) (y p),
                     z = min2 (z (box_min box)) (z p) \<rparr>,
       box_max = \<lparr> x = max2 (x (box_max box)) (x p), y = max2 (y (box_max box)) (y p),
                     z = max2 (z (box_max box)) (z p) \<rparr> \<rparr>"

definition emptyBox :: Box3 where
  "emptyBox = \<lparr> box_min = \<lparr> x = PosInf, y = PosInf, z = PosInf \<rparr>,
                box_max = \<lparr> x = NegInf, y = NegInf, z = NegInf \<rparr> \<rparr>"

definition setFromPoints :: "Vector3 list \<Rightarrow> Box3" where
  "setFromPoints ps = fold expandByPoint ps emptyBox"

definition fin3 :: "real \<times> real \<times> real \<Rightarrow> Vector3" where
  "fin3 v = (case v of (a, b, c) \<Rightarrow> \<lparr> x = Fin a, y = Fin b, z = Fin c \<rparr>)"

section \<open>Keyframes of the scroll animation\<close>

record section_keyframe =
  scrollStart :: real
  scrollEnd :: real
  rotationY :: real
  zoom :: real
  cameraY :: real
  cameraX :: real
  opacity :: real

definition hero :: section_keyframe where
  "hero = \<lparr> scrollStart = 0.0, scrollEnd = 0.2, rotationY = 0.35, zoom = 3.0,
             cameraY = 1.6, cameraX = 1.5, opacity = 1.0 \<rparr>"

definition craft :: section_keyframe where
  "craft = \<lparr> scrollStart = 0.2, scrollEnd = 0.45, rotationY = 1.2, zoom = 1.08,
              cameraY = 1.65, cameraX = 1.5, opacity = 1.0 \<rparr>"

definition collection :: section_keyframe where
  "collection = \<lparr> scrollStart = 0.45, scrollEnd = 0.7, rotationY = pi * 0.75, zoom = 0.95,
                   cameraY = 1.7, cameraX = 1.3, opacity = 1.0 \<rparr>"

definition experience :: section_keyframe where
  "experience = \<lparr> scrollStart = 0.7, scrollEnd = 0.85, rotationY = 2.0, zoom = 1.02,
                   cameraY = 1.75, cameraX = 1.2, opacity = 1.0 \<rparr>"

definition contact :: section_keyframe where
  "contact = \<lparr> scrollStart = 0.85, scrollEnd = 1.0, rotationY = 2.2, zoom = 0.98,
                cameraY = 1.8, cameraX = 1.0, opacity = 0.0 \<rparr>"

record interpolation_arrays =
  scrollBreakpoints :: "real list"
  rotationValues :: "real list"
  zoomValues :: "real list"
  cameraYValues :: "real list"
  cameraXValues :: "real list"
  opacityValues :: "real list"

definition no_arrays :: interpolation_arrays where
  "no_arrays = \<lparr> scrollBreakpoints = [], rotationValues = [], zoomValues = [],
                 cameraYValues = [], cameraXValues = [], opacityValues = [] \<rparr>"

text \<open>One step of \<open>sections.forEach\<close>: the start of the section, point and values.\<close>

definition push_start :: "section_keyframe \<Rightarrow> interpolation_arrays \<Rightarrow> interpolation_arrays" where
  "push_start s a =
     \<lparr> scrollBreakpoints = scrollBreakpoints a @ [scrollStart s],
       rotationValues = rotationValues a @ [rotationY s],
       zoomValues = zoomValues a @ [zoom s],
       cameraYValues = cameraYValues a @ [cameraY s],
       cameraXValues = cameraXValues a @ [cameraX s],
       opacityValues = opacityValues a @ [opacity s] \<rparr>"

text \<open>The end of the section, with the same values.\<close>

definition push_end :: "section_keyframe \<Rightarrow> interpolation_arrays \<Rightarrow> interpolation_arrays" where
  "push_end s a =
     \<lparr> scrollBreakpoints = scrollBreakpoints a @ [scrollEnd s],
       rotationValues = rotationValues a @ [rotationY s],
       zoomValues = zoomValues a @ [zoom s],
       cameraYValues = cameraYValues a @ [cameraY s],
       cameraXValues = cameraXValues a @ [cameraX s],
       opacityValues = opacityValues a @ [opacity s] \<rparr>"

text \<open>
  The loop over the sections, with the running index: every section adds its start, and
  the section whose index is \<open>sections.length - 1\<close> adds its end as well.
\<close>

fun forEach_section ::
  "nat \<Rightarrow> nat \<Rightarrow> section_keyframe list \<Rightarrow> interpolation_arrays \<Rightarrow> interpolation_arrays" where
  "forEach_section n index [] a = a"
| "forEach_section n index (s # rest) a =
     (let a1 = push_start s a;
          a2 = (if int index = int n - 1 then push_end s a1 else a1)
      in forEach_section n (index + 1) rest a2)"

definition getInterpolationArrays :: interpolation_arrays where
  "getInterpolationArrays =
     (let sections = [hero, craft, collection, experience, contact]
      in forEach_section (length sections) 0 sections no_arrays)"

section \<open>Interpolation over the breakpoints\<close>

text \<open>
  Modelled from the spec: \<open>useTransform\<close> belongs to the animation library, which is not
  part of the sources. The interpolator is the one of the specification: a channel is an
  ordered table of (progress, value) breakpoints; a table without breakpoints is an
  error; a progress at or before the first breakpoint gives the first value, one at or
  after the last breakpoint gives the last value; otherwise the value is interpolated
  linearly on the consecutive pair with \<open>p0 \<le> progress \<le> p1\<close>, a pair of zero width
  giving its own value \<open>v0\<close>.
\<close>

type_synonym breakpoint = "real \<times> real"

definition segment_value :: "breakpoint \<Rightarrow> breakpoint \<Rightarrow> real \<Rightarrow> real" where
  "segment_value b0 b1 progress =
     (case b0 of (p0, v0) \<Rightarrow> case b1 of (p1, v1) \<Rightarrow>
        if p1 = p0 then v0 else v0 + (v1 - v0) * (progress - p0) / (p1 - p0))"

fun find_bracket :: "breakpoint \<Rightarrow> breakpoint list \<Rightarrow> real \<Rightarrow> real" where
  "find_bracket b0 [] progress = snd b0"
| "find_bracket b0 (b1 # rest) progress =
     (if fst b0 \<le> progress \<and> progress \<le> fst b1 then segment_value b0 b1 progress
      else find_bracket b1 rest progress)"

definition interpolate :: "breakpoint list \<Rightarrow> real \<Rightarrow> error + real" where
  "interpolate table progress =
     (case table of
        [] \<Rightarrow> Inl EmptyKeyframeTable
      | first # rest \<Rightarrow>
          if progress \<le> fst first then Inr (snd first)
          else if fst (last table) \<le> progress then Inr (snd (last table))
          else Inr (find_bracket first rest progress))"

definition useTransform :: "real \<Rightarrow> real list \<Rightarrow> real list \<Rightarrow> error + real" where
  "useTransform progress inputRange outputRange = interpolate (zip inputRange outputRange) progress"

text \<open>The five channels of \<open>useSuitScrollAnimation\<close> at a scroll progress.\<close>

datatype channel = RotationY | Zoom | CameraY | CameraX | Opacity

fun channelValues :: "interpolation_arrays \<Rightarrow> channel \<Rightarrow> real list" where
  "channelValues a RotationY = rotationValues a"
| "channelValues a Zoom = zoomValues a"
| "channelValues a CameraY = cameraYValues a"
| "channelValues a CameraX = cameraXValues a"
| "channelValues a Opacity = opacityValues a"

definition useSuitScrollAnimation :: "channel \<Rightarrow> real \<Rightarrow> error + real" where
  "useSuitScrollAnimation ch scrollYProgress =
     (let interpolation = getInterpolationArrays
      in useTransform scrollYProgress (scrollBreakpoints interpolation)
           (channelValues interpolation ch))"

section \<open>The camera step as the specification writes it\<close>

text \<open>
  The formulas of the specification over the reals, to compare the frame callback with.
\<close>

definition spec_lerp ::
  "real \<times> real \<times> real \<Rightarrow> real \<times> real \<times> real \<Rightarrow> real \<Rightarrow> real \<times> real \<times> real" where
  "spec_lerp p q t =
     (case p of (px, py, pz) \<Rightarrow> case q of (qx, qy, qz) \<Rightarrow>
        (px + (qx - px) * t, py + (qy - py) * t, pz + (qz - pz) * t))"

definition spec_targetPosition ::
  "real \<Rightarrow> real \<Rightarrow> real \<Rightarrow> real \<Rightarrow> real \<Rightarrow> real \<Rightarrow> real \<Rightarrow> real \<Rightarrow> real \<times> real \<times> real" where
  "spec_targetPosition target_zoom cameraVerticalOffset cameraHorizontalOffset
       viewportWidth viewportHeight fovDegrees baseDistance pixelOffsetX =
     (let distance = baseDistance / target_zoom;
          fovRadians = fovDegrees * pi / 180;
          worldViewportHeightAtDistance = 2 * tan (fovRadians / 2) * distance;
          worldViewportWidthAtDistance =
            worldViewportHeightAtDistance * (viewportWidth / viewportHeight);
          worldOffsetX = (pixelOffsetX / viewportWidth) * worldViewportWidthAtDistance
      in (cameraHorizontalOffset + worldOffsetX, cameraVerticalOffset, distance))"

text \<open>The Euclidean distance between two points with real coordinates.\<close>

definition distance3 :: "real \<times> real \<times> real \<Rightarrow> real \<times> real \<times> real \<Rightarrow> real" where
  "distance3 p q =
     (case p of (px, py, pz) \<Rightarrow> case q of (qx, qy, qz) \<Rightarrow>
        sqrt ((px - qx)\<^sup>2 + (py - qy)\<^sup>2 + (pz - qz)\<^sup>2))"

section \<open>The camera target and the smoothing step\<close>

lemma frame_target_finite:
  assumes "0 < width sz" and "0 < height sz" and "currentZoom inp \<noteq> 0"
  shows "frame_target cfg sz inp =
     fin3 (spec_targetPosition (currentZoom inp) (currentCameraY inp) (currentCameraX inp)
        (width sz) (height sz) (fov cfg) (snd (snd (defaultPosition cfg))) (offsetXPx inp))"
  using assms by (simp add: frame_target_def spec_targetPosition_def fin3_def Let_def)

lemma Vector3_lerp_finite:
  "Vector3_lerp (fin3 p) (fin3 q) (Fin t) = fin3 (spec_lerp p q t)"
  by (simp add: Vector3_lerp_def fin3_def spec_lerp_def minus_jsnum_def split: prod.splits)

text \<open>
  Claim C1. In every frame with a positive canvas width and height and a zoom other than
  zero, the controller's target is the one of the specification's formulas (distance,
  field of view in radians, height and width of the view at that distance, pixel offset
  in world units), computed from the current channel values, and the camera moves from
  its previous position to the linear interpolation towards that target with the fixed
  factor 0.05.
\<close>

theorem camera_frame_formulas:
  assumes "0 < width sz" and "0 < height sz" and "currentZoom inp \<noteq> 0"
  shows "useFrame_camera cfg sz inp \<lparr> targetPosition = t0, position = fin3 prev \<rparr> =
     (let target = spec_targetPosition (currentZoom inp) (currentCameraY inp)
            (currentCameraX inp) (width sz) (height sz) (fov cfg)
            (snd (snd (defaultPosition cfg))) (offsetXPx inp)
      in \<lparr> targetPosition = fin3 target, position = fin3 (spec_lerp prev target 0.05) \<rparr>)"
  using assms by (simp add: useFrame_camera_def frame_target_finite Vector3_lerp_finite Let_def)

theorem camera_frame_formulas_witness:
  "(0::real) < width \<lparr> width = 800, height = 600 \<rparr>
   \<and> (0::real) < height \<lparr> width = 800, height = 600 \<rparr>
   \<and> currentZoom \<lparr> currentZoom = 1, currentCameraY = 1.6, currentCameraX = 2,
         offsetXPx = - 400 \<rparr> \<noteq> 0
   \<and> useFrame_camera CAMERA_CONFIG \<lparr> width = 800, height = 600 \<rparr>
         \<lparr> currentZoom = 1, currentCameraY = 1.6, currentCameraX = 2, offsetXPx = - 400 \<rparr>
         \<lparr> targetPosition = fin3 (2, 1.6, 5), position = fin3 (2, 1.6, 5) \<rparr> =
       (let target = spec_targetPosition 1 1.6 2 800 600 45 5 (- 400)
        in \<lparr> targetPosition = fin3 target,
             position = fin3 (spec_lerp (2, 1.6, 5) target 0.05) \<rparr>)"
  using camera_frame_formulas [of "\<lparr> width = 800, height = 600 \<rparr>"
      "\<lparr> currentZoom = 1, currentCameraY = 1.6, currentCameraX = 2, offsetXPx = - 400 \<rparr>"
      CAMERA_CONFIG "fin3 (2, 1.6, 5)" "(2, 1.6, 5)"]
  by (simp add: CAMERA_CONFIG_def)

section \<open>The breakpoint tables and their interpolation\<close>

lemma arrays_eval:
  "getInterpolationArrays =
     \<lparr> scrollBreakpoints = [0, 0.2, 0.45, 0.7, 0.85, 1],
       rotationValues = [0.35, 1.2, pi * 0.75, 2, 2.2, 2.2],
       zoomValues = [3, 1.08, 0.95, 1.02, 0.98, 0.98],
       cameraYValues = [1.6, 1.65, 1.7, 1.75, 1.8, 1.8],
       cameraXValues = [1.5, 1.5, 1.3, 1.2, 1, 1],
       opacityValues = [1, 1, 1, 1, 0, 0] \<rparr>"
  by (simp add: getInterpolationArrays_def no_arrays_def push_start_def push_end_def
      hero_def craft_def collection_def experience_def contact_def)

lemma segment_value_bounds:
  assumes "fst b0 \<le> p" and "p \<le> fst b1"
    and "lo \<le> snd b0" and "snd b0 \<le> hi" and "lo \<le> snd b1" and "snd b1 \<le> hi"
  shows "lo \<le> segment_value b0 b1 p \<and> segment_value b0 b1 p \<le> hi"
proof (cases "fst b1 = fst b0")
  case True
  then show ?thesis using assms by (cases b0; cases b1) (simp add: segment_value_def)
next
  case False
  define t where "t = (p - fst b0) / (fst b1 - fst b0)"
  have pos: "0 < fst b1 - fst b0" using assms False by simp
  have t0: "0 \<le> t" using assms pos by (simp add: t_def)
  have t1: "t \<le> 1" using assms pos by (simp add: t_def)
  have "snd b0 + (snd b1 - snd b0) * (p - fst b0) / (fst b1 - fst b0)
      = snd b0 + (snd b1 - snd b0) * t"
    by (simp add: t_def)
  also have "\<dots> = (1 - t) * snd b0 + t * snd b1"
    by (simp add: algebra_simps)
  finally have eq: "segment_value b0 b1 p = (1 - t) * snd b0 + t * snd b1"
    using False by (cases b0; cases b1) (simp add: segment_value_def)
  have "(1 - t) * lo + t * lo \<le> (1 - t) * snd b0 + t * snd b1"
    using t0 t1 assms by (intro add_mono mult_left_mono) simp_all
  moreover have "(1 - t) * snd b0 + t * snd b1 \<le> (1 - t) * hi + t * hi"
    using t0 t1 assms by (intro add_mono mult_left_mono) simp_all
  ultimately show ?thesis unfolding eq by (simp add: algebra_simps)
qed

lemma find_bracket_bounds:
  assumes "\<forall>b \<in> set (b0 # rest). lo \<le> snd b \<and> snd b \<le> hi"
  shows "lo \<le> find_bracket b0 rest p \<and> find_bracket b0 rest p \<le> hi"
  using assms
proof (induction rest arbitrary: b0)
  case Nil
  then show ?case by simp
next
  case (Cons b1 rest)
  show ?case
  proof (cases "fst b0 \<le> p \<and> p \<le> fst b1")
    case True
    then show ?thesis using Cons.prems segment_value_bounds [of b0 p b1 lo hi] by simp
  next
    case False
    then show ?thesis using Cons.IH [of b1] Cons.prems by auto
  qed
qed

lemma interpolate_bounds:
  assumes "table \<noteq> []" and "\<forall>b \<in> set table. lo \<le> snd b \<and> snd b \<le> hi"
  shows "\<exists>v. interpolate table p = Inr v \<and> lo \<le> v \<and> v \<le> hi"
proof -
  obtain b0 rest where t: "table = b0 # rest" using assms(1) by (cases table) auto
  have l: "last table \<in> set table" using assms(1) by simp
  have "lo \<le> find_bracket b0 rest p \<and> find_bracket b0 rest p \<le> hi"
    using find_bracket_bounds assms(2) unfolding t by blast
  then show ?thesis using assms(2) l unfolding t
    by (auto simp: interpolate_def simp del: last.simps)
qed

lemma interpolate_Min_Max:
  assumes "table \<noteq> []"
  shows "\<exists>v. interpolate table p = Inr v \<and> Min (snd ` set table) \<le> v \<and> v \<le> Max (snd ` set table)"
  using assms by (intro interpolate_bounds) simp_all

lemma channel_lengths:
  "length (channelValues getInterpolationArrays ch) = length (scrollBreakpoints getInterpolationArrays)"
  by (cases ch) (simp_all add: arrays_eval)

lemma channel_nonempty: "zip (scrollBreakpoints getInterpolationArrays) (channelValues getInterpolationArrays ch) \<noteq> []"
  by (cases ch) (simp_all add: arrays_eval)

text \<open>
  Claim C9. At every real progress, each channel of the shipped keyframes yields a value,
  and that value lies between the least and the greatest value authored for the channel;
  the opacity in particular stays between 0 and 1, although the interpolator clamps no
  value.
\<close>

theorem channel_output_within_keyframe_values:
  "(\<exists>v. useSuitScrollAnimation ch p = Inr v
        \<and> Min (set (channelValues getInterpolationArrays ch)) \<le> v
        \<and> v \<le> Max (set (channelValues getInterpolationArrays ch)))
   \<and> (\<exists>v. useSuitScrollAnimation Opacity p = Inr v \<and> 0 \<le> v \<and> v \<le> 1)"
proof
  have s: "snd ` set (zip (scrollBreakpoints getInterpolationArrays) (channelValues getInterpolationArrays ch))
        = set (channelValues getInterpolationArrays ch)"
    using channel_lengths [of ch] by (metis map_snd_zip set_map)
  show "\<exists>v. useSuitScrollAnimation ch p = Inr v
        \<and> Min (set (channelValues getInterpolationArrays ch)) \<le> v
        \<and> v \<le> Max (set (channelValues getInterpolationArrays ch))"
    using interpolate_Min_Max [OF channel_nonempty, of ch p]
    by (simp add: useSuitScrollAnimation_def useTransform_def s Let_def)
  have "\<exists>v. interpolate (zip (scrollBreakpoints getInterpolationArrays) (opacityValues getInterpolationArrays)) p = Inr v \<and> 0 \<le> v \<and> v \<le> 1"
    by (rule interpolate_bounds) (simp_all add: arrays_eval)
  then show "\<exists>v. useSuitScrollAnimation Opacity p = Inr v \<and> 0 \<le> v \<and> v \<le> 1"
    by (simp add: useSuitScrollAnimation_def useTransform_def Let_def)
qed

lemma before_first:
  assumes "p \<le> 0"
  shows "useSuitScrollAnimation ch p = Inr (hd (channelValues getInterpolationArrays ch))"
  using assms by (cases ch) (simp_all add: useSuitScrollAnimation_def useTransform_def arrays_eval interpolate_def)

lemma after_last:
  assumes "1 \<le> p"
  shows "useSuitScrollAnimation ch p = Inr (last (channelValues getInterpolationArrays ch))"
  using assms by (cases ch) (simp_all add: useSuitScrollAnimation_def useTransform_def arrays_eval interpolate_def)

text \<open>
  Claim C6. For every channel of the shipped table, the interpolation at progress -1 is
  the one at 0 and the interpolation at 2 is the one at 1; every real progress yields a
  value and never an error; a progress at or below 0 gives the first breakpoint's value,
  one at or above 1 the last breakpoint's value.
\<close>

theorem clamping:
  "useSuitScrollAnimation ch (- 1) = useSuitScrollAnimation ch 0
   \<and> useSuitScrollAnimation ch 2 = useSuitScrollAnimation ch 1
   \<and> (\<exists>v. useSuitScrollAnimation ch r = Inr v)
   \<and> (p \<le> 0 \<longrightarrow> useSuitScrollAnimation ch p = Inr (hd (channelValues getInterpolationArrays ch)))
   \<and> (1 \<le> q \<longrightarrow> useSuitScrollAnimation ch q = Inr (last (channelValues getInterpolationArrays ch)))"
proof -
  have "\<exists>v. useSuitScrollAnimation ch r = Inr v"
    using interpolate_Min_Max [OF channel_nonempty, of ch r]
    by (auto simp add: useSuitScrollAnimation_def useTransform_def Let_def)
  then show ?thesis
    by (simp add: before_first after_last)
qed

theorem clamping_witness:
  "(- 1 :: real) \<le> 0 \<and> (1 :: real) \<le> 2
   \<and> useSuitScrollAnimation Zoom (- 1) = useSuitScrollAnimation Zoom 0
   \<and> useSuitScrollAnimation Zoom 2 = useSuitScrollAnimation Zoom 1
   \<and> (\<exists>v. useSuitScrollAnimation Zoom 0.5 = Inr v)
   \<and> useSuitScrollAnimation Zoom (- 1) = Inr 3
   \<and> useSuitScrollAnimation Zoom 2 = Inr 0.98"
  using clamping [of Zoom "0.5" "- 1" 2] by (auto simp add: arrays_eval)

text \<open>
  Claim C2, as amended. The shipped opacity table has the values 1, 1, 1, 1, 0, 0 at the
  progress points 0, 0.2, 0.45, 0.7, 0.85, 1; its interpolation at 0.9 is exactly 0, and
  its interpolation at 0.85 is exactly 0 as well: 0.85 is the start of the last section,
  whose opacity is 0, and the segment to its left ends at that value.
\<close>

theorem opacity_at_terminal_breakpoints:
  "scrollBreakpoints getInterpolationArrays = [0, 0.2, 0.45, 0.7, 0.85, 1]
   \<and> opacityValues getInterpolationArrays = [1, 1, 1, 1, 0, 0]
   \<and> useSuitScrollAnimation Opacity 0.9 = Inr 0
   \<and> useSuitScrollAnimation Opacity 0.85 = Inr 0"
  by (simp add: useSuitScrollAnimation_def arrays_eval useTransform_def interpolate_def
      segment_value_def)

theorem opacity_at_085_counterexample:
  "\<not> (useSuitScrollAnimation Opacity 0.9 = Inr 0 \<and> useSuitScrollAnimation Opacity 0.85 = Inr 1)"
  by (simp add: useSuitScrollAnimation_def arrays_eval useTransform_def interpolate_def
      segment_value_def)

section \<open>Bounds on pi\<close>

text \<open>
  The third rotation keyframe is three quarters of pi, so the value of the rotation
  channel between the second and the third breakpoint depends on pi. Machin's formula and
  polynomial bounds on the arc tangent give pi to three decimals.
\<close>

lemma arctan_poly_lower7:
  fixes u :: real
  assumes "0 \<le> u"
  shows "u - u^3 / 3 + u^5 / 5 - u^7 / 7 \<le> arctan u"
proof -
  let ?f = "\<lambda>t::real. arctan t - (t - t^3 / 3 + t^5 / 5 - t^7 / 7)"
  have "?f 0 \<le> ?f u"
  proof (rule DERIV_nonneg_imp_nondecreasing [OF assms])
    fix t :: real
    assume "0 \<le> t" "t \<le> u"
    have d: "(?f has_real_derivative (inverse (1 + t\<^sup>2) - (1 - t^2 + t^4 - t^6))) (at t)"
      by (auto intro!: derivative_eq_intros simp: field_simps)
    have "(1 - t^2 + t^4 - t^6) * (1 + t\<^sup>2) = 1 - t^8"
      by (simp add: algebra_simps power2_eq_square power_numeral_reduce)
    also have "\<dots> \<le> 1" by simp
    finally have "1 - t^2 + t^4 - t^6 \<le> 1 / (1 + t\<^sup>2)"
      by (simp add: pos_le_divide_eq add_pos_nonneg)
    then have "0 \<le> inverse (1 + t\<^sup>2) - (1 - t^2 + t^4 - t^6)"
      by (simp add: inverse_eq_divide)
    with d show "\<exists>y. (?f has_real_derivative y) (at t) \<and> 0 \<le> y" by blast
  qed
  then show ?thesis by simp
qed

lemma arctan_poly_upper5:
  fixes u :: real
  assumes "0 \<le> u"
  shows "arctan u \<le> u - u^3 / 3 + u^5 / 5"
proof -
  let ?f = "\<lambda>t::real. (t - t^3 / 3 + t^5 / 5) - arctan t"
  have "?f 0 \<le> ?f u"
  proof (rule DERIV_nonneg_imp_nondecreasing [OF assms])
    fix t :: real
    assume "0 \<le> t" "t \<le> u"
    have d: "(?f has_real_derivative ((1 - t^2 + t^4) - inverse (1 + t\<^sup>2))) (at t)"
      by (auto intro!: derivative_eq_intros simp: field_simps)
    have "(1 - t^2 + t^4) * (1 + t\<^sup>2) = 1 + t^6"
      by (simp add: algebra_simps power2_eq_square power_numeral_reduce)
    then have "1 \<le> (1 - t^2 + t^4) * (1 + t\<^sup>2)" by simp
    then have "1 / (1 + t\<^sup>2) \<le> 1 - t^2 + t^4"
      by (simp add: pos_divide_le_eq add_pos_nonneg)
    then have "0 \<le> (1 - t^2 + t^4) - inverse (1 + t\<^sup>2)"
      by (simp add: inverse_eq_divide)
    with d show "\<exists>y. (?f has_real_derivative y) (at t) \<and> 0 \<le> y" by blast
  qed
  then show ?thesis by simp
qed

lemma arctan_poly_lower3:
  fixes u :: real
  assumes "0 \<le> u"
  shows "u - u^3 / 3 \<le> arctan u"
proof -
  let ?f = "\<lambda>t::real. arctan t - (t - t^3 / 3)"
  have "?f 0 \<le> ?f u"
  proof (rule DERIV_nonneg_imp_nondecreasing [OF assms])
    fix t :: real
    assume "0 \<le> t" "t \<le> u"
    have d: "(?f has_real_derivative (inverse (1 + t\<^sup>2) - (1 - t^2))) (at t)"
      by (auto intro!: derivative_eq_intros simp: field_simps)
    have "(1 - t^2) * (1 + t\<^sup>2) = 1 - t^4"
      by (simp add: algebra_simps power2_eq_square power_numeral_reduce)
    also have "\<dots> \<le> 1" by simp
    finally have "1 - t^2 \<le> 1 / (1 + t\<^sup>2)"
      by (simp add: pos_le_divide_eq add_pos_nonneg)
    then have "0 \<le> inverse (1 + t\<^sup>2) - (1 - t^2)"
      by (simp add: inverse_eq_divide)
    with d show "\<exists>y. (?f has_real_derivative y) (at t) \<and> 0 \<le> y" by blast
  qed
  then show ?thesis by simp
qed

lemma pi_lower: "3.1415 < pi"
proof -
  have a: "(1/5) - (1/5)^3 / 3 + (1/5)^5 / 5 - (1/5)^7 / 7 \<le> arctan (1/5 :: real)"
    by (rule arctan_poly_lower7) simp
  have b: "arctan (1/239 :: real) \<le> 1/239"
    using arctan_poly_upper5 [of "1/239"] arctan_poly_lower3 [of "1/239"]
    by (simp add: power_numeral_reduce)
  have "pi = 16 * arctan (1/5) - 4 * arctan (1/239)"
    using machin by simp
  with a b show ?thesis by (simp add: power_numeral_reduce)
qed

lemma pi_upper: "pi < 3.1417"
proof -
  have a: "arctan (1/5 :: real) \<le> (1/5) - (1/5)^3 / 3 + (1/5)^5 / 5"
    by (rule arctan_poly_upper5) simp
  have b: "1/239 - (1/239)^3 / 3 \<le> arctan (1/239 :: real)"
    by (rule arctan_poly_lower3) simp
  have "pi = 16 * arctan (1/5) - 4 * arctan (1/239)"
    using machin by simp
  with a b show ?thesis by (simp add: power_numeral_reduce)
qed

section \<open>The rotation channel inside the second section\<close>

lemma rotation_at_0325:
  "useSuitScrollAnimation RotationY 0.325 = Inr (0.6 + 0.375 * pi)"
  by (simp add: useSuitScrollAnimation_def arrays_eval useTransform_def interpolate_def
      segment_value_def field_simps)

text \<open>
  Claim C8, as amended. The shipped rotation table has the values 0.35, 1.2, 0.75 pi, 2.0,
  2.2, 2.2 at the progress points 0, 0.2, 0.45, 0.7, 0.85, 1, and the rotation at progress
  0.325 is 1.2 + (0.75 pi - 1.2) * (0.325 - 0.2) / (0.45 - 0.2), which is 0.6 + 0.375 pi: a
  number strictly between 1.778 and 1.7782.
\<close>

theorem rotation_midpoint_of_second_section:
  "scrollBreakpoints getInterpolationArrays = [0, 0.2, 0.45, 0.7, 0.85, 1]
   \<and> rotationValues getInterpolationArrays = [0.35, 1.2, pi * 0.75, 2.0, 2.2, 2.2]
   \<and> useSuitScrollAnimation RotationY 0.325 =
         Inr (1.2 + (pi * 0.75 - 1.2) * (0.325 - 0.2) / (0.45 - 0.2))
   \<and> 1.2 + (pi * 0.75 - 1.2) * (0.325 - 0.2) / (0.45 - 0.2) = 0.6 + 0.375 * pi
   \<and> 1.778 < 0.6 + 0.375 * pi \<and> 0.6 + 0.375 * pi < 1.7782"
proof -
  have e: "1.2 + (pi * 0.75 - 1.2) * (0.325 - 0.2) / (0.45 - 0.2) = 0.6 + 0.375 * pi"
    by (simp add: field_simps)
  have b: "1.778 < 0.6 + 0.375 * pi \<and> 0.6 + 0.375 * pi < 1.7782"
    using pi_lower pi_upper by simp
  show ?thesis
    using b by (simp only: e rotation_at_0325 arrays_eval) simp
qed

theorem rotation_midpoint_counterexample:
  "rotationValues getInterpolationArrays \<noteq> [0.35, 1.2, 2.356, 2.0, 2.2, 2.2]
   \<and> useSuitScrollAnimation RotationY 0.325 \<noteq> Inr 1.778"
proof
  have "pi * 0.75 \<noteq> 2.356" using pi_lower by simp
  then show "rotationValues getInterpolationArrays \<noteq> [0.35, 1.2, 2.356, 2.0, 2.2, 2.2]"
    by (simp add: arrays_eval)
  have "0.6 + 0.375 * pi \<noteq> 1.778" using pi_lower by simp
  then show "useSuitScrollAnimation RotationY 0.325 \<noteq> Inr 1.778"
    unfolding rotation_at_0325 by (simp only: sum.inject not_False_eq_True)
qed

section \<open>A canvas of height zero\<close>

lemma tan_fov_pos: "0 < tan (45 * pi / 180 / 2 :: real)"
  by (rule tan_gt_zero) (simp_all add: pi_gt_zero)

lemma signed_inf_not_finite: "\<not> isFinite (signed_inf s)"
  by (simp add: signed_inf_def)

lemma times_not_finite_left: "\<not> isFinite a \<Longrightarrow> \<not> isFinite (a * b)"
  by (cases a; cases b) (simp_all add: signed_inf_def)

lemma times_not_finite_right: "\<not> isFinite b \<Longrightarrow> \<not> isFinite (a * b)"
  by (cases a; cases b) (simp_all add: signed_inf_def)

lemma plus_not_finite_right: "\<not> isFinite b \<Longrightarrow> \<not> isFinite (a + b)"
  by (cases a; cases b) simp_all

lemma plus_not_finite_left: "\<not> isFinite a \<Longrightarrow> \<not> isFinite (a + b)"
  by (cases a; cases b) simp_all

lemma uminus_not_finite: "\<not> isFinite a \<Longrightarrow> \<not> isFinite (- a)"
  by (cases a) simp_all

lemma minus_not_finite_left: "\<not> isFinite a \<Longrightarrow> \<not> isFinite (a - b)"
  by (simp add: minus_jsnum_def plus_not_finite_left)

lemma divide_by_zero_not_finite: "\<not> isFinite (a / Fin 0)"
  by (cases a) (simp_all add: signed_inf_def)

lemma frame_target_x_zero_height:
  assumes "height sz = 0"
  shows "\<not> isFinite (x (frame_target cfg sz inp))"
  unfolding frame_target_def Let_def Vector3.select_convs assms
  by (intro plus_not_finite_right times_not_finite_right) (rule divide_by_zero_not_finite)

lemma frame_target_y: "y (frame_target cfg sz inp) = Fin (currentCameraY inp)"
  unfolding frame_target_def Let_def Vector3.select_convs by (rule refl)

lemma frame_target_z:
  "z (frame_target cfg sz inp) = Fin (snd (snd (defaultPosition cfg))) / Fin (currentZoom inp)"
  unfolding frame_target_def Let_def Vector3.select_convs by (rule refl)

lemma useFrame_camera_position:
  "position (useFrame_camera cfg sz inp st) =
     Vector3_lerp (position st) (frame_target cfg sz inp) (Fin 0.05)"
  by (simp add: useFrame_camera_def Let_def)

text \<open>
  Claim C3, as amended. The frame callback has no guard on the height of the canvas. With
  a height of zero it raises nothing and still moves the camera: whatever the previous
  position, the new y and z components are the previous ones moved by the factor 0.05
  towards the current vertical offset and towards base distance over zoom, and the new x
  component is not a finite number.
\<close>

theorem zero_height_frame:
  assumes "height sz = 0"
  shows "\<not> isFinite (x (position (useFrame_camera cfg sz inp st)))
     \<and> y (position (useFrame_camera cfg sz inp st)) =
         y (position st) + (Fin (currentCameraY inp) - y (position st)) * Fin 0.05
     \<and> z (position (useFrame_camera cfg sz inp st)) =
         z (position st) + (Fin (snd (snd (defaultPosition cfg))) / Fin (currentZoom inp) - z (position st)) * Fin 0.05"
proof (intro conjI)
  have "x (position (useFrame_camera cfg sz inp st)) =
      x (position st) + (x (frame_target cfg sz inp) - x (position st)) * Fin 0.05"
    by (simp add: useFrame_camera_position Vector3_lerp_def)
  moreover have "\<not> isFinite (x (position st) + (x (frame_target cfg sz inp) - x (position st)) * Fin 0.05)"
    by (intro plus_not_finite_right times_not_finite_left minus_not_finite_left
        frame_target_x_zero_height assms)
  ultimately show "\<not> isFinite (x (position (useFrame_camera cfg sz inp st)))" by simp
  show "y (position (useFrame_camera cfg sz inp st)) =
         y (position st) + (Fin (currentCameraY inp) - y (position st)) * Fin 0.05"
    by (simp add: useFrame_camera_position Vector3_lerp_def frame_target_y)
  show "z (position (useFrame_camera cfg sz inp st)) =
         z (position st) + (Fin (snd (snd (defaultPosition cfg))) / Fin (currentZoom inp) - z (position st)) * Fin 0.05"
    by (simp only: useFrame_camera_position Vector3_lerp_def frame_target_z Vector3.select_convs)
qed

theorem zero_height_frame_witness:
  "height \<lparr> width = 800, height = 0 \<rparr> = 0
   \<and> \<not> isFinite (x (position (useFrame_camera CAMERA_CONFIG \<lparr> width = 800, height = 0 \<rparr>
         \<lparr> currentZoom = 1, currentCameraY = 1.6, currentCameraX = 2, offsetXPx = - 400 \<rparr>
         \<lparr> targetPosition = fin3 (2, 1.6, 5), position = fin3 (2, 1.6, 5) \<rparr>)))
   \<and> y (position (useFrame_camera CAMERA_CONFIG \<lparr> width = 800, height = 0 \<rparr>
         \<lparr> currentZoom = 1, currentCameraY = 1.6, currentCameraX = 2, offsetXPx = - 400 \<rparr>
         \<lparr> targetPosition = fin3 (2, 1.6, 5), position = fin3 (2, 1.6, 5) \<rparr>)) = Fin 1.6
   \<and> z (position (useFrame_camera CAMERA_CONFIG \<lparr> width = 800, height = 0 \<rparr>
         \<lparr> currentZoom = 1, currentCameraY = 1.6, currentCameraX = 2, offsetXPx = - 400 \<rparr>
         \<lparr> targetPosition = fin3 (2, 1.6, 5), position = fin3 (2, 1.6, 5) \<rparr>)) = Fin 5"
  using zero_height_frame [of "\<lparr> width = 800, height = 0 \<rparr>" CAMERA_CONFIG
      "\<lparr> currentZoom = 1, currentCameraY = 1.6, currentCameraX = 2, offsetXPx = - 400 \<rparr>"
      "\<lparr> targetPosition = fin3 (2, 1.6, 5), position = fin3 (2, 1.6, 5) \<rparr>"]
  by (simp add: CAMERA_CONFIG_def fin3_def minus_jsnum_def)

theorem zero_height_frame_counterexample:
  "position (useFrame_camera CAMERA_CONFIG \<lparr> width = 800, height = 0 \<rparr>
       \<lparr> currentZoom = 1, currentCameraY = 1.6, currentCameraX = 2, offsetXPx = - 400 \<rparr>
       \<lparr> targetPosition = fin3 (2, 1.6, 5), position = fin3 (0, 0, 0) \<rparr>)
     = \<lparr> x = NegInf, y = Fin 0.08, z = Fin 0.25 \<rparr>
   \<and> position (useFrame_camera CAMERA_CONFIG \<lparr> width = 800, height = 0 \<rparr>
       \<lparr> currentZoom = 1, currentCameraY = 1.6, currentCameraX = 2, offsetXPx = - 400 \<rparr>
       \<lparr> targetPosition = fin3 (2, 1.6, 5), position = fin3 (0, 0, 0) \<rparr>)
     \<noteq> fin3 (0, 0, 0)"
  using tan_fov_pos
  by (simp add: useFrame_camera_def frame_target_def Let_def Vector3_lerp_def CAMERA_CONFIG_def
      fin3_def minus_jsnum_def signed_inf_def)

section \<open>Scaling a degenerate bounding volume\<close>

text \<open>
  Claim C4, as amended. The normalisation has no guard on the largest dimension of the
  bounding volume: it fails for no bounding volume and always returns the transform it
  computed; when the largest dimension is zero, the scale of that transform is not a
  finite number.
\<close>

theorem normalize_never_fails:
  "normalize cfg desktop box = Inr (processedScene cfg desktop box)
   \<and> (maxDimension box = Fin 0 \<longrightarrow> \<not> isFinite (scale (processedScene cfg desktop box)))"
proof (intro conjI impI)
  show "normalize cfg desktop box = Inr (processedScene cfg desktop box)"
    by (simp add: normalize_def)
  have s: "scale (processedScene cfg desktop box) =
      (Fin (targetSize cfg) / maxDimension box) * Fin (scaleMultiplier cfg)"
    by (simp add: processedScene_def Let_def)
  show "\<not> isFinite (scale (processedScene cfg desktop box))" if "maxDimension box = Fin 0"
    unfolding s that by (intro times_not_finite_left divide_by_zero_not_finite)
qed

lemma zero_box_dimension:
  "maxDimension \<lparr> box_min = fin3 (0, 0, 0), box_max = fin3 (0, 0, 0) \<rparr> = Fin 0"
  by (simp add: maxDimension_def getSize_def Let_def Math_max_def fin3_def minus_jsnum_def)

theorem normalize_never_fails_witness:
  "maxDimension \<lparr> box_min = fin3 (0, 0, 0), box_max = fin3 (0, 0, 0) \<rparr> = Fin 0
   \<and> normalize MODEL_CONFIG True \<lparr> box_min = fin3 (0, 0, 0), box_max = fin3 (0, 0, 0) \<rparr>
       = Inr (processedScene MODEL_CONFIG True \<lparr> box_min = fin3 (0, 0, 0), box_max = fin3 (0, 0, 0) \<rparr>)
   \<and> \<not> isFinite (scale (processedScene MODEL_CONFIG True
          \<lparr> box_min = fin3 (0, 0, 0), box_max = fin3 (0, 0, 0) \<rparr>))"
  using normalize_never_fails [of MODEL_CONFIG True
      "\<lparr> box_min = fin3 (0, 0, 0), box_max = fin3 (0, 0, 0) \<rparr>"] zero_box_dimension
  by simp

theorem degenerate_geometry_counterexample:
  "maxDimension \<lparr> box_min = fin3 (0, 0, 0), box_max = fin3 (0, 0, 0) \<rparr> = Fin 0
   \<and> normalize MODEL_CONFIG True \<lparr> box_min = fin3 (0, 0, 0), box_max = fin3 (0, 0, 0) \<rparr>
       = Inr \<lparr> scale = PosInf, scene_position = \<lparr> x = NaN, y = NaN, z = NaN \<rparr> \<rparr>
   \<and> normalize MODEL_CONFIG True \<lparr> box_min = fin3 (0, 0, 0), box_max = fin3 (0, 0, 0) \<rparr>
       \<noteq> Inl DegenerateGeometry"
  by (simp add: maxDimension_def getSize_def Math_max_def minus_jsnum_def normalize_def
      processedScene_def Let_def getCenter_def fin3_def MODEL_CONFIG_def signed_inf_def)

text \<open>
  What the scale is when the largest dimension is itself not finite: \<open>NaN\<close> for \<open>NaN\<close>,
  and zero for \<open>Infinity\<close>.
\<close>

lemma scale_of_non_finite_dimension:
  "maxDimension box = NaN \<Longrightarrow> scale (processedScene cfg desktop box) = NaN"
  "maxDimension box = PosInf \<Longrightarrow> scale (processedScene cfg desktop box) = Fin 0"
  by (simp_all add: processedScene_def Let_def)

section \<open>The default pixel offset of the canvas component\<close>

text \<open>
  Claim C10. When the \<open>offsetXPx\<close> prop of the canvas component is left out, the controller
  works with a pixel offset of -400: with a positive canvas width and height and a zoom
  other than zero, the x coordinate of each frame's target is the horizontal offset minus
  400 / width of the width of the view, in world units, at the current camera distance;
  for a positive zoom this lies strictly to the left of the horizontal offset itself.
\<close>

theorem default_pixel_offset:
  assumes "prop_offsetXPx props = None"
    and "0 < width sz" and "0 < height sz" and "prop_zoom props \<noteq> 0"
  shows "(let inp = CameraController CAMERA_CONFIG (ThreeSuitCanvas CAMERA_CONFIG props);
              distance = 5 / prop_zoom props;
              worldViewportWidthAtDistance =
                2 * tan (45 * pi / 180 / 2) * distance * (width sz / height sz)
          in offsetXPx inp = - 400
             \<and> currentCameraX inp = (case prop_cameraX props of None \<Rightarrow> 2 | Some v \<Rightarrow> v)
             \<and> x (frame_target CAMERA_CONFIG sz inp) =
                 Fin (currentCameraX inp - 400 / width sz * worldViewportWidthAtDistance)
             \<and> (0 < prop_zoom props \<longrightarrow>
                 currentCameraX inp - 400 / width sz * worldViewportWidthAtDistance
                   < currentCameraX inp))"
proof -
  have w: "0 < 400 / width sz * (2 * tan (45 * pi / 180 / 2) * (5 / prop_zoom props) * (width sz / height sz))"
    if "0 < prop_zoom props"
    using that assms tan_fov_pos by simp
  show ?thesis
    using assms w
    by (simp add: Let_def CameraController_def ThreeSuitCanvas_def CAMERA_CONFIG_def
        frame_target_def)
qed

theorem default_pixel_offset_witness:
  "prop_offsetXPx \<lparr> prop_rotationY = 0.35, prop_zoom = 1, prop_cameraY = None,
        prop_cameraX = None, prop_offsetXPx = None \<rparr> = None
   \<and> (0::real) < width \<lparr> width = 800, height = 600 \<rparr>
   \<and> (0::real) < height \<lparr> width = 800, height = 600 \<rparr>
   \<and> prop_zoom \<lparr> prop_rotationY = 0.35, prop_zoom = 1, prop_cameraY = None,
        prop_cameraX = None, prop_offsetXPx = None \<rparr> \<noteq> 0
   \<and> 0 < prop_zoom \<lparr> prop_rotationY = 0.35, prop_zoom = 1, prop_cameraY = None,
        prop_cameraX = None, prop_offsetXPx = None \<rparr>
   \<and> x (frame_target CAMERA_CONFIG \<lparr> width = 800, height = 600 \<rparr>
         (CameraController CAMERA_CONFIG (ThreeSuitCanvas CAMERA_CONFIG
            \<lparr> prop_rotationY = 0.35, prop_zoom = 1, prop_cameraY = None,
              prop_cameraX = None, prop_offsetXPx = None \<rparr>))) =
       Fin (2 - 400 / 800 * (2 * tan (45 * pi / 180 / 2) * (5 / 1) * (800 / 600)))
   \<and> 2 - 400 / 800 * (2 * tan (45 * pi / 180 / 2) * (5 / 1) * (800 / 600)) < (2::real)"
  using default_pixel_offset [of "\<lparr> prop_rotationY = 0.35, prop_zoom = 1, prop_cameraY = None,
        prop_cameraX = None, prop_offsetXPx = None \<rparr>" "\<lparr> width = 800, height = 600 \<rparr>"]
  by (simp add: Let_def CameraController_def ThreeSuitCanvas_def CAMERA_CONFIG_def)

section \<open>Convergence of the smoothing steps\<close>

text \<open>Closed forms of the repeated smoothing steps.\<close>

lemma suit_frames_closed_form:
  "(useFrame_suit (Fin target) ^^ n) (Some (Fin r0)) =
     Some (Fin (target + (9 / 10) ^ n * (r0 - target)))"
proof (induction n)
  case 0
  show ?case by simp
next
  case (Suc n)
  have "(useFrame_suit (Fin target) ^^ Suc n) (Some (Fin r0)) =
      useFrame_suit (Fin target) (Some (Fin (target + (9 / 10) ^ n * (r0 - target))))"
    by (simp only: funpow.simps o_apply Suc)
  also have "\<dots> = Some (Fin (target + (9 / 10) ^ Suc n * (r0 - target)))"
    by (simp add: useFrame_suit_def MathUtils_lerp_def minus_jsnum_def field_simps)
  finally show ?case .
qed

lemma camera_frames_closed_form:
  assumes "frame_target cfg sz inp = fin3 (tx, ty, tz)"
  shows "position ((useFrame_camera cfg sz inp ^^ n) \<lparr> targetPosition = t0, position = fin3 (px, py, pz) \<rparr>) =
     fin3 (tx + (19 / 20) ^ n * (px - tx), ty + (19 / 20) ^ n * (py - ty),
           tz + (19 / 20) ^ n * (pz - tz))"
proof (induction n)
  case 0
  show ?case by simp
next
  case (Suc n)
  have "position ((useFrame_camera cfg sz inp ^^ Suc n)
        \<lparr> targetPosition = t0, position = fin3 (px, py, pz) \<rparr>) =
      Vector3_lerp (fin3 (tx + (19 / 20) ^ n * (px - tx), ty + (19 / 20) ^ n * (py - ty),
           tz + (19 / 20) ^ n * (pz - tz))) (fin3 (tx, ty, tz)) (Fin 0.05)"
    by (simp only: funpow.simps o_apply useFrame_camera_position Suc assms)
  also have "\<dots> = fin3 (tx + (19 / 20) ^ Suc n * (px - tx), ty + (19 / 20) ^ Suc n * (py - ty),
           tz + (19 / 20) ^ Suc n * (pz - tz))"
    by (simp add: Vector3_lerp_finite spec_lerp_def field_simps)
  finally show ?case .
qed

lemma geometric_decay:
  fixes c d e :: real
  assumes "0 \<le> c" and "c < 1" and "0 < e"
  shows "\<exists>N. \<forall>n\<ge>N. c ^ n * d < e"
proof (cases "d \<le> 0")
  case True
  then have "c ^ n * d \<le> 0" for n
    using assms(1) by (simp add: mult_nonneg_nonpos)
  then show ?thesis using assms(3) by (meson le_less_trans)
next
  case False
  then have d: "0 < d" by simp
  then have "0 < e / d" using assms(3) by simp
  then obtain N where N: "c ^ N < e / d"
    using real_arch_pow_inv [OF _ assms(2)] by blast
  have "c ^ n * d < e" if "N \<le> n" for n
  proof -
    have "c ^ n \<le> c ^ N"
      using that assms(1,2) by (intro power_decreasing) simp_all
    then have "c ^ n < e / d" using N by simp
    then show ?thesis using d by (simp add: pos_less_divide_eq)
  qed
  then show ?thesis by blast
qed

lemma distance3_scaled:
  assumes "0 \<le> c"
  shows "distance3 (tx + c * (px - tx), ty + c * (py - ty), tz + c * (pz - tz)) (tx, ty, tz) =
     c * distance3 (px, py, pz) (tx, ty, tz)"
proof -
  have "(c * (px - tx))\<^sup>2 + (c * (py - ty))\<^sup>2 + (c * (pz - tz))\<^sup>2 =
      c\<^sup>2 * ((px - tx)\<^sup>2 + (py - ty)\<^sup>2 + (pz - tz)\<^sup>2)"
    by (simp only: power_mult_distrib distrib_left)
  then have "sqrt ((c * (px - tx))\<^sup>2 + (c * (py - ty))\<^sup>2 + (c * (pz - tz))\<^sup>2) =
      c * sqrt ((px - tx)\<^sup>2 + (py - ty)\<^sup>2 + (pz - tz)\<^sup>2)"
    using assms by (simp add: real_sqrt_mult)
  then show ?thesis
    by (simp add: distance3_def)
qed

text \<open>
  Claim C7. Repeating the smoothing step with a constant target converges: for the
  rotation of the suit (factor 0.1) and for the position of the camera (factor 0.05, the
  canvas having a positive width and height and the zoom not being zero), every positive
  eps has a number of frames after which the distance to the target stays below eps; and
  a rotation, or a coordinate of the camera, that starts at or below its target is at or
  below it after every number of frames.
\<close>

theorem smoothing_converges:
  assumes "0 < eps" and "0 < width sz" and "0 < height sz" and "currentZoom inp \<noteq> 0"
    and "spec_targetPosition (currentZoom inp) (currentCameraY inp) (currentCameraX inp)
        (width sz) (height sz) (fov cfg) (snd (snd (defaultPosition cfg))) (offsetXPx inp) = (tx, ty, tz)"
  shows "(\<exists>N. \<forall>n\<ge>N. \<exists>r. (useFrame_suit (Fin target) ^^ n) (Some (Fin r0)) = Some (Fin r)
              \<and> \<bar>r - target\<bar> < eps)
     \<and> (r0 \<le> target \<longrightarrow> (\<forall>n. \<exists>r. (useFrame_suit (Fin target) ^^ n) (Some (Fin r0)) = Some (Fin r)
              \<and> r \<le> target))
     \<and> (\<exists>N. \<forall>n\<ge>N. \<exists>p. position ((useFrame_camera cfg sz inp ^^ n)
                \<lparr> targetPosition = t0, position = fin3 (px, py, pz) \<rparr>) = fin3 p
              \<and> distance3 p (tx, ty, tz) < eps)
     \<and> (\<forall>n. \<exists>qx qy qz. position ((useFrame_camera cfg sz inp ^^ n)
                \<lparr> targetPosition = t0, position = fin3 (px, py, pz) \<rparr>) = fin3 (qx, qy, qz)
              \<and> (px \<le> tx \<longrightarrow> qx \<le> tx) \<and> (py \<le> ty \<longrightarrow> qy \<le> ty) \<and> (pz \<le> tz \<longrightarrow> qz \<le> tz))"
proof (intro conjI impI allI)
  obtain N where N: "\<forall>n\<ge>N. (9 / 10 :: real) ^ n * \<bar>r0 - target\<bar> < eps"
    using geometric_decay [of "9 / 10" eps "\<bar>r0 - target\<bar>"] assms(1) by auto
  have "\<exists>r. (useFrame_suit (Fin target) ^^ n) (Some (Fin r0)) = Some (Fin r) \<and> \<bar>r - target\<bar> < eps"
    if "N \<le> n" for n
    using N that by (simp add: suit_frames_closed_form abs_mult)
  then show "\<exists>N. \<forall>n\<ge>N. \<exists>r. (useFrame_suit (Fin target) ^^ n) (Some (Fin r0)) = Some (Fin r)
              \<and> \<bar>r - target\<bar> < eps"
    by blast
next
  fix n
  assume "r0 \<le> target"
  then have "(9 / 10) ^ n * (r0 - target) \<le> 0"
    by (simp add: mult_nonneg_nonpos)
  then show "\<exists>r. (useFrame_suit (Fin target) ^^ n) (Some (Fin r0)) = Some (Fin r) \<and> r \<le> target"
    by (simp add: suit_frames_closed_form)
next
  have ft: "frame_target cfg sz inp = fin3 (tx, ty, tz)"
    using frame_target_finite [OF assms(2,3,4)] assms(5) by simp
  obtain N where N: "\<forall>n\<ge>N. (19 / 20 :: real) ^ n * distance3 (px, py, pz) (tx, ty, tz) < eps"
    using geometric_decay [of "19 / 20" eps] assms(1) by auto
  have "\<exists>p. position ((useFrame_camera cfg sz inp ^^ n)
                \<lparr> targetPosition = t0, position = fin3 (px, py, pz) \<rparr>) = fin3 p
              \<and> distance3 p (tx, ty, tz) < eps" if "N \<le> n" for n
    using N that camera_frames_closed_form [OF ft, of n t0 px py pz]
      distance3_scaled [of "(19 / 20) ^ n" tx px ty py tz pz]
    by (intro exI [of _ "(tx + (19 / 20) ^ n * (px - tx), ty + (19 / 20) ^ n * (py - ty),
           tz + (19 / 20) ^ n * (pz - tz))"]) simp
  then show "\<exists>N. \<forall>n\<ge>N. \<exists>p. position ((useFrame_camera cfg sz inp ^^ n)
                \<lparr> targetPosition = t0, position = fin3 (px, py, pz) \<rparr>) = fin3 p
              \<and> distance3 p (tx, ty, tz) < eps"
    by blast
next
  fix n
  have ft: "frame_target cfg sz inp = fin3 (tx, ty, tz)"
    using frame_target_finite [OF assms(2,3,4)] assms(5) by simp
  have "(19 / 20) ^ n * (a - b) \<le> 0" if "a \<le> b" for a b :: real
    using that by (simp add: mult_nonneg_nonpos)
  then show "\<exists>qx qy qz. position ((useFrame_camera cfg sz inp ^^ n)
                \<lparr> targetPosition = t0, position = fin3 (px, py, pz) \<rparr>) = fin3 (qx, qy, qz)
              \<and> (px \<le> tx \<longrightarrow> qx \<le> tx) \<and> (py \<le> ty \<longrightarrow> qy \<le> ty) \<and> (pz \<le> tz \<longrightarrow> qz \<le> tz)"
    using camera_frames_closed_form [OF ft, of n t0 px py pz]
    by (intro exI [of _ "tx + (19 / 20) ^ n * (px - tx)"]
        exI [of _ "ty + (19 / 20) ^ n * (py - ty)"]
        exI [of _ "tz + (19 / 20) ^ n * (pz - tz)"]) simp
qed

theorem smoothing_converges_witness:
  "(0::real) < 0.1
   \<and> (0::real) < width \<lparr> width = 800, height = 600 \<rparr>
   \<and> (0::real) < height \<lparr> width = 800, height = 600 \<rparr>
   \<and> currentZoom \<lparr> currentZoom = 1, currentCameraY = 1.6, currentCameraX = 2,
         offsetXPx = 0 \<rparr> \<noteq> 0
   \<and> spec_targetPosition 1 1.6 2 800 600 45 5 0 = (2, 1.6, 5)
   \<and> (0.35::real) \<le> 1.2 \<and> (0::real) \<le> 2 \<and> (0::real) \<le> 1.6 \<and> (0::real) \<le> 5
   \<and> (\<exists>N. \<forall>n\<ge>N. \<exists>r. (useFrame_suit (Fin 1.2) ^^ n) (Some (Fin 0.35)) = Some (Fin r)
              \<and> \<bar>r - 1.2\<bar> < 0.1)
   \<and> (\<forall>n. \<exists>r. (useFrame_suit (Fin 1.2) ^^ n) (Some (Fin 0.35)) = Some (Fin r) \<and> r \<le> 1.2)
   \<and> (\<exists>N. \<forall>n\<ge>N. \<exists>p. position ((useFrame_camera CAMERA_CONFIG \<lparr> width = 800, height = 600 \<rparr>
              \<lparr> currentZoom = 1, currentCameraY = 1.6, currentCameraX = 2, offsetXPx = 0 \<rparr> ^^ n)
                \<lparr> targetPosition = fin3 (0, 0, 0), position = fin3 (0, 0, 0) \<rparr>) = fin3 p
              \<and> distance3 p (2, 1.6, 5) < 0.1)
   \<and> (\<forall>n. \<exists>qx qy qz. position ((useFrame_camera CAMERA_CONFIG \<lparr> width = 800, height = 600 \<rparr>
              \<lparr> currentZoom = 1, currentCameraY = 1.6, currentCameraX = 2, offsetXPx = 0 \<rparr> ^^ n)
                \<lparr> targetPosition = fin3 (0, 0, 0), position = fin3 (0, 0, 0) \<rparr>) = fin3 (qx, qy, qz)
              \<and> qx \<le> 2 \<and> qy \<le> 1.6 \<and> qz \<le> 5)"
proof -
  have t: "spec_targetPosition 1 1.6 2 800 600 45 5 0 = (2, 1.6, 5)"
    by (simp add: spec_targetPosition_def)
  show ?thesis
    using t smoothing_converges [of "0.1" "\<lparr> width = 800, height = 600 \<rparr>"
      "\<lparr> currentZoom = 1, currentCameraY = 1.6, currentCameraX = 2, offsetXPx = 0 \<rparr>"
      CAMERA_CONFIG 2 "1.6" 5 "1.2" "0.35" "fin3 (0, 0, 0)" 0 0 0]
    by (simp add: CAMERA_CONFIG_def)
qed

section \<open>The normalised bounding volume\<close>

lemma max_plus_min: "max u v + min u v = u + (v::real)"
  by (simp add: max_def min_def)

lemma max_minus_min: "max u v - min u v = \<bar>u - (v::real)\<bar>"
  by (simp add: max_def min_def)

lemma spanned_box:
  "setFromPoints (map (applyTransform \<lparr> scale = Fin s, scene_position = fin3 (tx, ty, tz) \<rparr>)
      (corners \<lparr> box_min = fin3 (x0, y0, z0), box_max = fin3 (x1, y1, z1) \<rparr>)) =
   \<lparr> box_min = fin3 (min (x0 * s + tx) (x1 * s + tx), min (y0 * s + ty) (y1 * s + ty),
                     min (z0 * s + tz) (z1 * s + tz)),
     box_max = fin3 (max (x0 * s + tx) (x1 * s + tx), max (y0 * s + ty) (y1 * s + ty),
                     max (z0 * s + tz) (z1 * s + tz)) \<rparr>"
  by (simp add: setFromPoints_def corners_def applyTransform_def expandByPoint_def emptyBox_def
      fin3_def min.assoc min.left_commute max.assoc max.left_commute)

lemma processedScene_finite:
  assumes "0 < m" and "m = max (max (x1 - x0) (y1 - y0)) (z1 - z0)"
  shows "processedScene cfg desktop \<lparr> box_min = fin3 (x0, y0, z0), box_max = fin3 (x1, y1, z1) \<rparr> =
     (let s = targetSize cfg / m * scaleMultiplier cfg;
          pivotOffsetX = (if desktop then desktopPivotOffsetX cfg else 0)
      in \<lparr> scale = Fin s,
           scene_position = fin3 (- ((x1 + x0) / 2) * s + pivotOffsetX,
                                  - ((y1 + y0) / 2) * s + yOffset cfg,
                                  - ((z1 + z0) / 2) * s) \<rparr>)"
  using assms
  by (simp add: processedScene_def maxDimension_def getSize_def getCenter_def Math_max_def
      Let_def fin3_def minus_jsnum_def)

lemma scaled_extent:
  assumes "a \<le> (b::real)"
  shows "\<bar>(a * s + t) - (b * s + t)\<bar> = \<bar>s\<bar> * (b - a)"
proof -
  have "(a * s + t) - (b * s + t) = - (s * (b - a))" by (simp add: algebra_simps)
  then show ?thesis using assms by (simp add: abs_mult)
qed

lemma largest_scaled_extent:
  fixes d1 d2 d3 k :: real
  assumes "0 \<le> k"
  shows "max (max (k * d1) (k * d2)) (k * d3) = k * max (max d1 d2) d3"
  using assms by (simp add: max_mult_distrib_left)

text \<open>
  The transform of a bounding volume with finite corners and a positive largest dimension,
  and the box spanned by its transformed corners, for any sign of the scale: the largest
  dimension of that box is the absolute value of target size * scale multiplier.
\<close>

lemma normalized_box_extent:
  assumes "x0 \<le> x1" and "y0 \<le> y1" and "z0 \<le> z1"
    and "0 < max (max (x1 - x0) (y1 - y0)) (z1 - z0)"
  shows "(let box = \<lparr> box_min = fin3 (x0, y0, z0), box_max = fin3 (x1, y1, z1) \<rparr>;
              t = processedScene cfg desktop box;
              pivotOffsetX = (if desktop then desktopPivotOffsetX cfg else 0);
              s = targetSize cfg / max (max (x1 - x0) (y1 - y0)) (z1 - z0) * scaleMultiplier cfg;
              image = setFromPoints (map (applyTransform t) (corners box))
          in maxDimension box = Fin (max (max (x1 - x0) (y1 - y0)) (z1 - z0))
             \<and> scale t = Fin s
             \<and> scene_position t =
                 fin3 (- ((x1 + x0) / 2) * s + pivotOffsetX, - ((y1 + y0) / 2) * s + yOffset cfg,
                       - ((z1 + z0) / 2) * s)
             \<and> getCenter image = fin3 (pivotOffsetX, yOffset cfg, 0)
             \<and> maxDimension image = Fin \<bar>targetSize cfg * scaleMultiplier cfg\<bar>)"
proof -
  define m where "m = max (max (x1 - x0) (y1 - y0)) (z1 - z0)"
  define s where "s = targetSize cfg / m * scaleMultiplier cfg"
  define p where "p = (if desktop then desktopPivotOffsetX cfg else 0)"
  define tx where "tx = - ((x1 + x0) / 2) * s + p"
  define ty where "ty = - ((y1 + y0) / 2) * s + yOffset cfg"
  define tz where "tz = - ((z1 + z0) / 2) * s"
  let ?box = "\<lparr> box_min = fin3 (x0, y0, z0), box_max = fin3 (x1, y1, z1) \<rparr>"
  let ?t = "\<lparr> scale = Fin s, scene_position = fin3 (tx, ty, tz) \<rparr>"
  let ?image = "setFromPoints (map (applyTransform ?t) (corners ?box))"
  have m: "0 < m" using assms(4) by (simp add: m_def)
  have t: "processedScene cfg desktop ?box = ?t"
    unfolding tx_def ty_def tz_def p_def s_def
    using processedScene_finite [of m x1 x0 y1 y0 z1 z0 cfg desktop, OF m m_def, unfolded Let_def] .
  have d: "maxDimension ?box = Fin m"
    by (simp add: maxDimension_def getSize_def Math_max_def Let_def fin3_def minus_jsnum_def m_def)
  have c: "getCenter ?image = fin3 (p, yOffset cfg, 0)"
    unfolding spanned_box
    by (simp add: getCenter_def fin3_def max_plus_min tx_def ty_def tz_def algebra_simps)
  have "maxDimension ?image =
      Fin (max (max \<bar>(x0 * s + tx) - (x1 * s + tx)\<bar> \<bar>(y0 * s + ty) - (y1 * s + ty)\<bar>)
             \<bar>(z0 * s + tz) - (z1 * s + tz)\<bar>)"
    unfolding spanned_box
    by (simp add: maxDimension_def getSize_def Math_max_def Let_def fin3_def minus_jsnum_def
        max_minus_min)
  also have "\<dots> = Fin (\<bar>s\<bar> * m)"
    unfolding scaled_extent [OF assms(1)] scaled_extent [OF assms(2)] scaled_extent [OF assms(3)]
    by (simp only: largest_scaled_extent [OF abs_ge_zero] m_def)
  also have "\<bar>s\<bar> * m = \<bar>targetSize cfg * scaleMultiplier cfg\<bar>"
    using m by (simp add: s_def abs_mult)
  finally have i: "maxDimension ?image = Fin \<bar>targetSize cfg * scaleMultiplier cfg\<bar>" .
  show ?thesis
    unfolding Let_def t m_def [symmetric] s_def [symmetric] p_def [symmetric]
    using d c i by (simp add: tx_def ty_def tz_def)
qed

text \<open>
  Claim C5. Take a bounding volume with finite corners, its minimum at or below its
  maximum on each axis, and a positive largest dimension, and any target size and scale
  multiplier whose product is not negative, any vertical offset and any pivot offset. The
  transform has the scale target size / largest dimension * scale multiplier and the
  translation (-center.x * scale + pivot offset, -center.y * scale + vertical offset,
  -center.z * scale); the box spanned by the transformed corners of the volume is centred
  at (pivot offset, vertical offset, 0), and its largest dimension is
  target size * scale multiplier.
\<close>

theorem normalized_box_round_trip:
  assumes "x0 \<le> x1" and "y0 \<le> y1" and "z0 \<le> z1"
    and "0 < max (max (x1 - x0) (y1 - y0)) (z1 - z0)"
    and "0 \<le> targetSize cfg * scaleMultiplier cfg"
  shows "(let box = \<lparr> box_min = fin3 (x0, y0, z0), box_max = fin3 (x1, y1, z1) \<rparr>;
              t = processedScene cfg desktop box;
              pivotOffsetX = (if desktop then desktopPivotOffsetX cfg else 0);
              s = targetSize cfg / max (max (x1 - x0) (y1 - y0)) (z1 - z0) * scaleMultiplier cfg;
              image = setFromPoints (map (applyTransform t) (corners box))
          in maxDimension box = Fin (max (max (x1 - x0) (y1 - y0)) (z1 - z0))
             \<and> scale t = Fin s
             \<and> scene_position t =
                 fin3 (- ((x1 + x0) / 2) * s + pivotOffsetX, - ((y1 + y0) / 2) * s + yOffset cfg,
                       - ((z1 + z0) / 2) * s)
             \<and> getCenter image = fin3 (pivotOffsetX, yOffset cfg, 0)
             \<and> maxDimension image = Fin (targetSize cfg * scaleMultiplier cfg))"
proof -
  have a: "\<bar>targetSize cfg * scaleMultiplier cfg\<bar> = targetSize cfg * scaleMultiplier cfg"
    using assms(5) by (rule abs_of_nonneg)
  show ?thesis
    using normalized_box_extent [OF assms(1-4), of cfg desktop] unfolding a .
qed

theorem normalized_box_round_trip_witness:
  "(0::real) \<le> 1 \<and> (0::real) \<le> 2 \<and> (0::real) \<le> 0.5
   \<and> (0::real) < max (max (1 - 0) (2 - 0)) (0.5 - 0)
   \<and> 0 \<le> targetSize MODEL_CONFIG * scaleMultiplier MODEL_CONFIG
   \<and> scale (processedScene MODEL_CONFIG True
         \<lparr> box_min = fin3 (0, 0, 0), box_max = fin3 (1, 2, 0.5) \<rparr>) = Fin 1.5
   \<and> getCenter (setFromPoints (map (applyTransform (processedScene MODEL_CONFIG True
         \<lparr> box_min = fin3 (0, 0, 0), box_max = fin3 (1, 2, 0.5) \<rparr>))
         (corners \<lparr> box_min = fin3 (0, 0, 0), box_max = fin3 (1, 2, 0.5) \<rparr>))) = fin3 (0.5, 0, 0)
   \<and> maxDimension (setFromPoints (map (applyTransform (processedScene MODEL_CONFIG True
         \<lparr> box_min = fin3 (0, 0, 0), box_max = fin3 (1, 2, 0.5) \<rparr>))
         (corners \<lparr> box_min = fin3 (0, 0, 0), box_max = fin3 (1, 2, 0.5) \<rparr>))) = Fin 3"
  using normalized_box_round_trip [of 0 1 0 2 0 "0.5" MODEL_CONFIG True]
  by (simp add: Let_def MODEL_CONFIG_def)

end
